theory Spec2Isabelle
  imports Main
begin

section \<open>The filterchain of \<^verbatim>\<open>valkka/live/chain/multifork.py\<close>\<close>

text \<open>
  A shallow embedding of the class \<^verbatim>\<open>MultiForkFilterchain\<close>. The object is a record of
  its attributes; every method takes the record and returns the updated one. The
  collaborators (fork and gate frame filters, the decoding thread, the OpenGL threads,
  the recording manager) live outside this file's source: a call to one of them is
  appended to the log \<open>calls\<close>, and every \<^verbatim>\<open>print\<close> is appended to \<open>printed\<close>.
  A method that can raise returns, next to the state it leaves behind, the exception
  (\<open>Some e\<close>) or \<open>None\<close> for a normal return.
\<close>

subsection \<open>Python values\<close>

datatype py_error = KeyError | IndexError

definition digit_char :: "nat \<Rightarrow> char" where
  "digit_char n = ''0123456789'' ! (n mod 10)"

fun str_nat :: "nat \<Rightarrow> string" where
  "str_nat n = (if n < 10 then [digit_char n] else str_nat (n div 10) @ [digit_char n])"

declare str_nat.simps [simp del]

text \<open>\<^verbatim>\<open>str(i)\<close> for a Python int.\<close>

definition str :: "int \<Rightarrow> string" where
  "str i = (if i < 0 then CHR ''-'' # str_nat (nat (- i)) else str_nat (nat i))"

text \<open>\<^verbatim>\<open>xs[i]\<close> on a list: a negative index counts from the end; \<open>None\<close> is IndexError.\<close>

definition py_index :: "'a list \<Rightarrow> int \<Rightarrow> 'a option" where
  "py_index xs i =
     (if 0 \<le> i \<and> i < int (length xs) then Some (xs ! nat i)
      else if i < 0 \<and> - int (length xs) \<le> i then Some (xs ! nat (int (length xs) + i))
      else None)"

text \<open>
  A dict whose insertion order is observable (\<^verbatim>\<open>list(d.keys())\<close>) is an association
  list: \<^verbatim>\<open>d[k] = v\<close> replaces the value of a present key in place and appends a new one.
\<close>

fun dict_set :: "'k \<Rightarrow> 'v \<Rightarrow> ('k \<times> 'v) list \<Rightarrow> ('k \<times> 'v) list" where
  "dict_set k v [] = [(k, v)]"
| "dict_set k v (p # ps) = (if fst p = k then (k, v) # ps else p # dict_set k v ps)"

definition dict_keys :: "('k \<times> 'v) list \<Rightarrow> 'k list" where
  "dict_keys d = map fst d"

definition dict_del :: "'k \<Rightarrow> ('k \<times> 'v) list \<Rightarrow> ('k \<times> 'v) list" where
  "dict_del k d = filter (\<lambda>p. fst p \<noteq> k) d"

subsection \<open>Data model\<close>

datatype ContextType = none | live | usb

datatype RecordType = never | movement | always

type_synonym token = nat
type_synonym manager = nat
type_synonym openglthread = nat

text \<open>
  A \<^verbatim>\<open>ViewPort\<close> object: its identity and the two attributes the chain reads
  (\<^verbatim>\<open>getWindowId()\<close>, \<^verbatim>\<open>getXScreenNum()\<close>). Membership in \<^verbatim>\<open>self.ports\<close> and in
  \<^verbatim>\<open>self.tokens_by_port\<close> compares view ports; here that is equality of these values.
\<close>

record view_port =
  port_id :: nat
  window_id :: int
  x_screen_num :: int

datatype shmem_filter = RGBShmemFrameFilter string int int int

datatype fork = fork_filter_main | fork_filter_file | fork_filter_decode | sws_fork_filter

datatype gate = FsGate | SwsGate

datatype framefilter =
    av_in_filter
  | fs_gate_filter
  | movement_filter
  | openglthread_input openglthread
  | shmem_terminal shmem_filter
  | manager_framefilter manager

text \<open>The calls the chain makes on its collaborators.\<close>

datatype call =
    connect fork string framefilter
  | disconnect fork string
  | gate_set gate
  | gate_unSet gate
  | setAffinity int
  | startCall
  | requestStopCall
  | decodingOnCall
  | decodingOffCall
  | setCallback
  | setInput manager int int
  | clearInput manager int
  | registerStream
  | playStream ContextType
  | gl_connect openglthread int int
  | gl_disconnect openglthread token

text \<open>The arguments of a \<^verbatim>\<open>print\<close>; \<open>printed\<close> holds one list per call of \<^verbatim>\<open>print\<close>.\<close>

datatype pyval = PStr string | PInt int | PTok token | PPort view_port

text \<open>
  The constructor's parameters that the modelled methods read (the stream address, the
  fifo sizes and the movement detector's settings only reach the collaborators'
  constructors), and \<^verbatim>\<open>id(self)\<close>.
\<close>

record parameters =
  context_type :: ContextType
  openglthreads :: "openglthread list"
  slot :: int
  affinity :: int
  verbose :: bool
  shmem_image_dimensions :: "int \<times> int"
  shmem_n_buffer :: int
  self_id :: nat

record chain =
  params :: parameters
  idst :: string
  decoding_client_count :: int
  movement_client_count :: int
  sws_client_count :: int
  x_screen_count :: "int \<rightharpoonup> int"
  ports :: "view_port list"
  tokens_by_port :: "view_port \<rightharpoonup> token"
  shmem_terminals :: "(string \<times> shmem_filter) list"
  width :: int
  height :: int
  record_type :: "RecordType option"
  id_rec :: "int option"
  valkkafsmanager :: "manager option"
  closed :: bool
  calls :: "call list"
  printed :: "pyval list list"

definition invoke :: "call \<Rightarrow> chain \<Rightarrow> chain" where
  "invoke c s = s\<lparr>calls := calls s @ [c]\<rparr>"

definition py_print :: "pyval list \<Rightarrow> chain \<Rightarrow> chain" where
  "py_print vs s = s\<lparr>printed := printed s @ [vs]\<rparr>"

text \<open>\<^verbatim>\<open>if (self.verbose): print(...)\<close>.\<close>

definition py_print_if :: "bool \<Rightarrow> pyval list \<Rightarrow> chain \<Rightarrow> chain" where
  "py_print_if b vs s = (if b then py_print vs s else s)"

definition pre :: string where
  "pre = ''MultiForkFilterchain : ''"

text \<open>
  What the logged calls mean for the collaborators: a gate passes frames after its last
  \<^verbatim>\<open>set()\<close> and blocks after its last \<^verbatim>\<open>unSet()\<close>; the decoding thread's output is on after
  its last \<^verbatim>\<open>decodingOnCall()\<close>. Before any such call the gate is closed and the output is
  off.
\<close>

definition gate_open :: "gate \<Rightarrow> call list \<Rightarrow> bool" where
  "gate_open g cs =
     foldl (\<lambda>b c. if c = gate_set g then True else if c = gate_unSet g then False else b)
       False cs"


subsection \<open>Construction\<close>

definition initVars :: "parameters \<Rightarrow> chain" where
  "initVars p =
     \<lparr>params = p,
      idst = str (int (self_id p)),
      decoding_client_count = 0,
      movement_client_count = 0,
      sws_client_count = 0,
      x_screen_count =
        (\<lambda>i. if 0 \<le> i \<and> i < int (length (openglthreads p)) then Some 0 else None),
      ports = [],
      tokens_by_port = Map.empty,
      shmem_terminals = [],
      width = fst (shmem_image_dimensions p),
      height = snd (shmem_image_dimensions p),
      record_type = None,
      id_rec = None,
      valkkafsmanager = None,
      closed = False,
      calls = [],
      printed = []\<rparr>"

definition make_filesystem_branch :: "chain \<Rightarrow> chain" where
  "make_filesystem_branch s =
     invoke (gate_unSet FsGate)
       (invoke (connect fork_filter_main (''fs_gate_'' @ str (slot (params s))) fs_gate_filter) s)"

definition make_decode_branch :: "chain \<Rightarrow> chain" where
  "make_decode_branch s =
     invoke (connect fork_filter_main (''decoding_'' @ str (slot (params s))) av_in_filter)
       (invoke (setAffinity (affinity (params s))) s)"

text \<open>
  \<^verbatim>\<open>createContext\<close> builds a connection context and hands it to the live or the USB
  thread; only the calls are recorded, not the fields of the context.
\<close>

definition createContext :: "chain \<Rightarrow> chain" where
  "createContext s =
     (if context_type (params s) = live then invoke (playStream live) (invoke registerStream s)
      else if context_type (params s) = usb then invoke (playStream usb) s
      else s)"

definition start :: "chain \<Rightarrow> chain" where
  "start s = invoke startCall s"

text \<open>
  \<^verbatim>\<open>__init__\<close>: \<^verbatim>\<open>make_main_branch\<close> and \<^verbatim>\<open>make_analysis_branch\<close> only create filters and
  call nothing on an existing collaborator.
\<close>

definition construct :: "parameters \<Rightarrow> chain" where
  "construct p = start (createContext (make_decode_branch (make_filesystem_branch (initVars p))))"

subsection \<open>Client calculators\<close>

definition decoding_client :: "chain \<Rightarrow> int \<Rightarrow> chain" where
  "decoding_client s inc =
     (let s1 =
        (if decoding_client_count s < 1 \<and> inc > 0 then
           invoke decodingOnCall
             (py_print [PStr ''start decoding for slot'', PInt (slot (params s))] s)
         else if decoding_client_count s = 1 \<and> inc < 0 then
           invoke decodingOffCall
             (py_print [PStr ''stop decoding for slot'', PInt (slot (params s))] s)
         else s)
      in s1\<lparr>decoding_client_count := decoding_client_count s1 + inc\<rparr>)"

definition movement_client :: "chain \<Rightarrow> int \<Rightarrow> chain" where
  "movement_client s0 inc =
     (let s = py_print [PStr ''movement_client: count, inc:'',
                        PInt (movement_client_count s0), PInt inc] s0;
          s1 =
        (if movement_client_count s < 1 \<and> inc > 0 then
           invoke (connect fork_filter_decode (''analysis_'' @ str (slot (params s))) movement_filter)
             (py_print [PStr ''connecting analysis branch for slot'', PInt (slot (params s))] s)
         else if movement_client_count s = 1 \<and> inc < 0 then
           invoke (disconnect fork_filter_decode (''analysis_'' @ str (slot (params s))))
             (py_print [PStr ''disconnecting analysis branch for slot'', PInt (slot (params s))] s)
         else s)
      in decoding_client (s1\<lparr>movement_client_count := movement_client_count s1 + inc\<rparr>) inc)"

definition sws_client :: "chain \<Rightarrow> int \<Rightarrow> chain" where
  "sws_client s inc =
     (let s1 =
        (if sws_client_count s < 1 \<and> inc > 0 then
           invoke (gate_set SwsGate)
             (py_print [PStr ''connecting sws_gate for slot'', PInt (slot (params s))] s)
         else if sws_client_count s = 1 \<and> inc < 0 then
           invoke (gate_unSet SwsGate)
             (py_print [PStr ''disconnecting sws_gate for slot'', PInt (slot (params s))] s)
         else s)
      in movement_client (s1\<lparr>sws_client_count := sws_client_count s1 + inc\<rparr>) inc)"

definition x_screen_client :: "chain \<Rightarrow> int \<Rightarrow> int \<Rightarrow> chain \<times> py_error option" where
  "x_screen_client s index inc =
     (case x_screen_count s index of
        None \<Rightarrow> (s, Some KeyError)
      | Some c \<Rightarrow>
          (let bump = (\<lambda>s1. decoding_client
                         (s1\<lparr>x_screen_count := (x_screen_count s1)(index \<mapsto> c + inc)\<rparr>) inc)
           in if c < 1 \<and> inc > 0 then
                (case py_index (openglthreads (params s)) index of
                   None \<Rightarrow> (s, Some IndexError)
                 | Some gl \<Rightarrow>
                     (bump (invoke (connect fork_filter_decode (''openglthread_'' @ str index)
                                      (openglthread_input gl)) s), None))
              else if c = 1 \<and> inc < 0 then
                (bump (invoke (disconnect fork_filter_decode (''openglthread_'' @ str index)) s),
                 None)
              else (bump s, None)))"

subsection \<open>Recording\<close>

text \<open>
  \<^verbatim>\<open>movement_cb\<close> with \<^verbatim>\<open>tup = (bool, SlotNumber, mstimestamp)\<close>. Its \<^verbatim>\<open>except\<close> branch
  catches what the gate raises; the gate calls of this model do not raise, so the branch
  has no counterpart here.
\<close>

definition movement_cb :: "chain \<Rightarrow> bool \<times> int \<times> int \<Rightarrow> chain" where
  "movement_cb s tup =
     (if fst tup then invoke (gate_set FsGate) s else invoke (gate_unSet FsGate) s)"

definition clearRecording :: "chain \<Rightarrow> chain" where
  "clearRecording s =
     (if record_type s = Some never then s
      else case valkkafsmanager s of
        None \<Rightarrow> s
      | Some m \<Rightarrow>
          (let s1 = (if record_type s = Some always then invoke (gate_unSet FsGate) s
                     else if record_type s = Some movement then movement_client s (- 1)
                     else s);
               s2 = invoke (clearInput m (slot (params s1))) s1;
               s3 = invoke (disconnect fork_filter_file (''recorder_'' @ str (slot (params s2)))) s2
           in s3\<lparr>record_type := None, id_rec := None, valkkafsmanager := None\<rparr>))"

definition setRecording :: "chain \<Rightarrow> int \<Rightarrow> RecordType \<Rightarrow> manager \<Rightarrow> chain" where
  "setRecording s id_rec' record_type' manager' =
     (if record_type s = Some never then py_print [PStr ''setRecording: never''] s
      else
        (let s1 = (if valkkafsmanager s \<noteq> None then clearRecording s else s);
             s2 = s1\<lparr>record_type := Some record_type', id_rec := Some id_rec',
                     valkkafsmanager := Some manager'\<rparr>;
             s3 = invoke (connect fork_filter_file (''recorder_'' @ str (slot (params s2)))
                            (manager_framefilter manager')) s2;
             s4 = (if record_type s3 = Some always then invoke (gate_set FsGate) s3
                   else if record_type s3 = Some movement then
                     invoke setCallback
                       (movement_client (py_print [PStr ''setRecording: movement''] s3) 1)
                   else s3)
         in invoke (setInput manager' id_rec' (slot (params s4))) s4))"

subsection \<open>Shared memory hooks\<close>

definition getShmem :: "chain \<Rightarrow> chain \<times> string" where
  "getShmem s =
     (let shmem_name = idst s @ ''_'' @ str (int (length (shmem_terminals s)));
          s1 = py_print [PStr ''getShmem : reserving'', PStr shmem_name] s;
          shmem_filter = RGBShmemFrameFilter shmem_name (shmem_n_buffer (params s1))
                           (width s1) (height s1);
          s2 = s1\<lparr>shmem_terminals := dict_set shmem_name shmem_filter (shmem_terminals s1)\<rparr>;
          s3 = invoke (connect sws_fork_filter shmem_name (shmem_terminal shmem_filter)) s2
      in (sws_client s3 1, shmem_name))"

definition releaseShmem :: "chain \<Rightarrow> string \<Rightarrow> chain \<times> bool" where
  "releaseShmem s shmem_name =
     (if shmem_name \<in> set (dict_keys (shmem_terminals s)) then
        (let s1 = s\<lparr>shmem_terminals := dict_del shmem_name (shmem_terminals s)\<rparr>;
             s2 = py_print [PStr ''releaseShmem : releasing'', PStr shmem_name] s1;
             s3 = invoke (disconnect sws_fork_filter shmem_name) s2
         in (sws_client s3 (- 1), True))
      else (s, False))"

fun releaseShmem_each :: "chain \<Rightarrow> string list \<Rightarrow> chain" where
  "releaseShmem_each s [] = s"
| "releaseShmem_each s (key # keys) = releaseShmem_each (fst (releaseShmem s key)) keys"

definition releaseAllShmem :: "chain \<Rightarrow> chain" where
  "releaseAllShmem s = releaseShmem_each s (dict_keys (shmem_terminals s))"

subsection \<open>View ports\<close>

text \<open>
  \<^verbatim>\<open>delViewPort\<close>: the OpenGL thread is looked up first (IndexError); an untracked port is
  reported by a print and the method returns.
\<close>

definition delViewPort :: "chain \<Rightarrow> view_port \<Rightarrow> chain \<times> py_error option" where
  "delViewPort s vp =
     (case py_index (openglthreads (params s)) (x_screen_num vp) of
        None \<Rightarrow> (s, Some IndexError)
      | Some gl \<Rightarrow>
          (let s1 = py_print_if (verbose (params s))
                      [PStr pre, PStr ''delViewPort: view_port, window_id, x_screen_num'',
                       PPort vp, PInt (window_id vp), PInt (x_screen_num vp)] s
           in if vp \<notin> set (ports s1) then
                (py_print [PStr pre, PStr ''delViewPort : FATAL : no such port'', PPort vp] s1, None)
              else
                (let s2 = s1\<lparr>ports := remove1 vp (ports s1)\<rparr>
                 in case tokens_by_port s2 vp of
                      None \<Rightarrow> (s2, Some KeyError)
                    | Some tok \<Rightarrow>
                        (let s3 = s2\<lparr>tokens_by_port := (tokens_by_port s2)(vp := None)\<rparr>;
                             s4 = py_print [PStr pre, PStr ''delViewPort: disconnecting token'',
                                            PTok tok] s3;
                             s5 = invoke (gl_disconnect gl tok) s4;
                             s6 = py_print [PStr pre, PStr ''delViewPort: OK disconnected token'',
                                            PTok tok] s5
                         in x_screen_client s6 (x_screen_num vp) (- 1)))))"

text \<open>
  \<^verbatim>\<open>addViewPort\<close>: \<open>tok\<close> is the token that \<^verbatim>\<open>openglthread.connect\<close> returns to this call.
\<close>

definition addViewPort :: "chain \<Rightarrow> view_port \<Rightarrow> token \<Rightarrow> chain \<times> py_error option" where
  "addViewPort s vp tok =
     (case py_index (openglthreads (params s)) (x_screen_num vp) of
        None \<Rightarrow> (s, Some IndexError)
      | Some gl \<Rightarrow>
          (let s1 = py_print_if (verbose (params s))
                      [PStr pre, PStr ''addViewPort: view_port, window_id, x_screen_num'',
                       PPort vp, PInt (window_id vp), PInt (x_screen_num vp)] s
           in case (if vp \<in> set (ports s1) then delViewPort s1 vp else (s1, None)) of
                (s2, Some e) \<Rightarrow> (s2, Some e)
              | (s2, None) \<Rightarrow>
                  (case x_screen_client s2 (x_screen_num vp) 1 of
                     (s3, Some e) \<Rightarrow> (s3, Some e)
                   | (s3, None) \<Rightarrow>
                       (let s4 = py_print [PStr pre, PStr ''connecting slot, window_id'',
                                           PInt (slot (params s3)), PInt (window_id vp)] s3;
                            s5 = invoke (gl_connect gl (slot (params s4)) (window_id vp)) s4;
                            s6 = py_print [PStr pre, PStr ''==> connected slot, window_id, token'',
                                           PInt (slot (params s5)), PInt (window_id vp), PTok tok] s5;
                            s7 = s6\<lparr>tokens_by_port := (tokens_by_port s6)(vp \<mapsto> tok)\<rparr>
                        in (s7\<lparr>ports := ports s7 @ [vp]\<rparr>, None)))))"

text \<open>\<^verbatim>\<open>clearAllViewPorts\<close> walks a copy of the list; an exception leaves the loop.\<close>

fun delViewPort_each :: "chain \<Rightarrow> view_port list \<Rightarrow> chain \<times> py_error option" where
  "delViewPort_each s [] = (s, None)"
| "delViewPort_each s (port # rest) =
     (case delViewPort s port of
        (s1, Some e) \<Rightarrow> (s1, Some e)
      | (s1, None) \<Rightarrow> delViewPort_each s1 rest)"

definition clearAllViewPorts :: "chain \<Rightarrow> chain \<times> py_error option" where
  "clearAllViewPorts s = delViewPort_each s (ports s)"

subsection \<open>Closing\<close>

definition requestClose :: "chain \<Rightarrow> chain \<times> py_error option" where
  "requestClose s =
     (if \<not> closed s then
        (case clearAllViewPorts (releaseAllShmem (clearRecording (invoke requestStopCall s))) of
           (s1, Some e) \<Rightarrow> (s1, Some e)
         | (s1, None) \<Rightarrow> (s1\<lparr>closed := True\<rparr>, None))
      else (s\<lparr>closed := True\<rparr>, None))"

section \<open>Properties\<close>

subsection \<open>Auxiliary definitions\<close>

text \<open>The parameters of the repository's own test: one OpenGL thread, slot 2.\<close>

definition p0 :: parameters where
  "p0 = \<lparr>context_type = live, openglthreads = [0], slot = 2, affinity = - 1, verbose = False,
          shmem_image_dimensions = (480, 270), shmem_n_buffer = 10, self_id = 7\<rparr>"

definition vp0 :: view_port where
  "vp0 = \<lparr>port_id = 1, window_id = 5, x_screen_num = 0\<rparr>"

text \<open>The collaborator calls made between two states of one chain.\<close>

definition new_calls :: "chain \<Rightarrow> chain \<Rightarrow> call list" where
  "new_calls s s' = drop (length (calls s)) (calls s')"

fun is_disconnect_of :: "fork \<Rightarrow> call \<Rightarrow> bool" where
  "is_disconnect_of f (disconnect f' n) = (f' = f)"
| "is_disconnect_of f _ = False"

text \<open>The calls of the three client calculators, by counter value and increment.\<close>

definition decoding_calls :: "int \<Rightarrow> int \<Rightarrow> call list" where
  "decoding_calls c i =
     (if c < 1 \<and> i > 0 then [decodingOnCall]
      else if c = 1 \<and> i < 0 then [decodingOffCall] else [])"

definition movement_calls :: "int \<Rightarrow> int \<Rightarrow> int \<Rightarrow> call list" where
  "movement_calls sl c i =
     (if c < 1 \<and> i > 0 then [connect fork_filter_decode (''analysis_'' @ str sl) movement_filter]
      else if c = 1 \<and> i < 0 then [disconnect fork_filter_decode (''analysis_'' @ str sl)]
      else [])"

definition sws_calls :: "int \<Rightarrow> int \<Rightarrow> call list" where
  "sws_calls c i =
     (if c < 1 \<and> i > 0 then [gate_set SwsGate]
      else if c = 1 \<and> i < 0 then [gate_unSet SwsGate] else [])"




text \<open>The public methods as events, and the state after a sequence of calls (an
  exception leaves the state it was raised in).\<close>

datatype event =
    AddViewPort view_port token
  | DelViewPort view_port
  | ClearAllViewPorts
  | RequestClose
  | GetShmem
  | ReleaseShmem string
  | ReleaseAllShmem
  | SetRecording int RecordType manager
  | ClearRecording
  | MovementCb "bool \<times> int \<times> int"

fun step :: "chain \<Rightarrow> event \<Rightarrow> chain" where
  "step s (AddViewPort vp tok) = fst (addViewPort s vp tok)"
| "step s (DelViewPort vp) = fst (delViewPort s vp)"
| "step s ClearAllViewPorts = fst (clearAllViewPorts s)"
| "step s RequestClose = fst (requestClose s)"
| "step s GetShmem = fst (getShmem s)"
| "step s (ReleaseShmem name) = fst (releaseShmem s name)"
| "step s ReleaseAllShmem = releaseAllShmem s"
| "step s (SetRecording i t m) = setRecording s i t m"
| "step s ClearRecording = clearRecording s"
| "step s (MovementCb tup) = movement_cb s tup"

fun run :: "chain \<Rightarrow> event list \<Rightarrow> chain" where
  "run s [] = s"
| "run s (e # es) = run (step s e) es"

text \<open>The list of ports has no duplicates and holds exactly the keys of the token dict.\<close>

definition ports_inv :: "chain \<Rightarrow> bool" where
  "ports_inv s \<longleftrightarrow> distinct (ports s) \<and> set (ports s) = dom (tokens_by_port s)"

text \<open>What \<^verbatim>\<open>decoding_client\<close> prints and what \<^verbatim>\<open>x_screen_client\<close> calls, by counter value.\<close>

definition decoding_prints :: "int \<Rightarrow> int \<Rightarrow> int \<Rightarrow> pyval list list" where
  "decoding_prints sl c i =
     (if c < 1 \<and> i > 0 then [[PStr ''start decoding for slot'', PInt sl]]
      else if c = 1 \<and> i < 0 then [[PStr ''stop decoding for slot'', PInt sl]] else [])"

definition x_screen_calls :: "openglthread \<Rightarrow> int \<Rightarrow> int \<Rightarrow> int \<Rightarrow> call list" where
  "x_screen_calls gl index c i =
     (if c < 1 \<and> i > 0 then
        [connect fork_filter_decode (''openglthread_'' @ str index) (openglthread_input gl)]
      else if c = 1 \<and> i < 0 then [disconnect fork_filter_decode (''openglthread_'' @ str index)]
      else [])"

text \<open>A state without its printed output.\<close>

definition unprinted :: "chain \<Rightarrow> chain" where
  "unprinted s = s\<lparr>printed := []\<rparr>"

text \<open>The second half of \<^verbatim>\<open>addViewPort\<close>, from \<^verbatim>\<open>x_screen_client\<close> on.\<close>

definition attach :: "chain \<Rightarrow> view_port \<Rightarrow> openglthread \<Rightarrow> token \<Rightarrow> chain \<times> py_error option" where
  "attach s2 vp gl tok =
     (case x_screen_client s2 (x_screen_num vp) 1 of
        (s3, Some e) \<Rightarrow> (s3, Some e)
      | (s3, None) \<Rightarrow>
          (s3\<lparr>tokens_by_port := (tokens_by_port s3)(vp \<mapsto> tok),
              ports := ports s3 @ [vp],
              calls := calls s3 @ [gl_connect gl (slot (params s3)) (window_id vp)],
              printed := printed s3 @
                [[PStr pre, PStr ''connecting slot, window_id'',
                  PInt (slot (params s3)), PInt (window_id vp)],
                 [PStr pre, PStr ''==> connected slot, window_id, token'',
                  PInt (slot (params s3)), PInt (window_id vp), PTok tok]]\<rparr>, None))"

text \<open>What \<^verbatim>\<open>movement_client\<close> and \<^verbatim>\<open>sws_client\<close> print, by counter value.\<close>

definition movement_prints :: "int \<Rightarrow> int \<Rightarrow> int \<Rightarrow> pyval list list" where
  "movement_prints sl c i =
     [PStr ''movement_client: count, inc:'', PInt c, PInt i] #
     (if c < 1 \<and> i > 0 then [[PStr ''connecting analysis branch for slot'', PInt sl]]
      else if c = 1 \<and> i < 0 then [[PStr ''disconnecting analysis branch for slot'', PInt sl]]
      else [])"

definition sws_prints :: "int \<Rightarrow> int \<Rightarrow> int \<Rightarrow> pyval list list" where
  "sws_prints sl c i =
     (if c < 1 \<and> i > 0 then [[PStr ''connecting sws_gate for slot'', PInt sl]]
      else if c = 1 \<and> i < 0 then [[PStr ''disconnecting sws_gate for slot'', PInt sl]]
      else [])"


subsection \<open>What the client calculators change\<close>

lemma py_print_if_eq:
  "py_print_if b vs s = s\<lparr>printed := printed s @ (if b then [vs] else [])\<rparr>"
  by (simp add: py_print_if_def py_print_def)

lemmas log_defs = invoke_def py_print_def py_print_if_eq

lemma decoding_client_frame [simp]:
  "params (decoding_client s i) = params s"
  "idst (decoding_client s i) = idst s"
  "movement_client_count (decoding_client s i) = movement_client_count s"
  "sws_client_count (decoding_client s i) = sws_client_count s"
  "x_screen_count (decoding_client s i) = x_screen_count s"
  "ports (decoding_client s i) = ports s"
  "tokens_by_port (decoding_client s i) = tokens_by_port s"
  "shmem_terminals (decoding_client s i) = shmem_terminals s"
  "width (decoding_client s i) = width s"
  "height (decoding_client s i) = height s"
  "record_type (decoding_client s i) = record_type s"
  "id_rec (decoding_client s i) = id_rec s"
  "valkkafsmanager (decoding_client s i) = valkkafsmanager s"
  "closed (decoding_client s i) = closed s"
  "decoding_client_count (decoding_client s i) = decoding_client_count s + i"
  by (simp_all add: decoding_client_def log_defs Let_def)

lemma calls_decoding_client:
  "calls (decoding_client s i) = calls s @ decoding_calls (decoding_client_count s) i"
  by (simp add: decoding_client_def decoding_calls_def log_defs Let_def)

lemma movement_client_frame [simp]:
  "params (movement_client s i) = params s"
  "idst (movement_client s i) = idst s"
  "sws_client_count (movement_client s i) = sws_client_count s"
  "x_screen_count (movement_client s i) = x_screen_count s"
  "ports (movement_client s i) = ports s"
  "tokens_by_port (movement_client s i) = tokens_by_port s"
  "shmem_terminals (movement_client s i) = shmem_terminals s"
  "width (movement_client s i) = width s"
  "height (movement_client s i) = height s"
  "record_type (movement_client s i) = record_type s"
  "id_rec (movement_client s i) = id_rec s"
  "valkkafsmanager (movement_client s i) = valkkafsmanager s"
  "closed (movement_client s i) = closed s"
  "movement_client_count (movement_client s i) = movement_client_count s + i"
  "decoding_client_count (movement_client s i) = decoding_client_count s + i"
  by (simp_all add: movement_client_def log_defs Let_def)

lemma calls_movement_client:
  "calls (movement_client s i) =
     calls s @ movement_calls (slot (params s)) (movement_client_count s) i @
     decoding_calls (decoding_client_count s) i"
  by (simp add: movement_client_def movement_calls_def calls_decoding_client log_defs Let_def)

lemma sws_client_frame [simp]:
  "params (sws_client s i) = params s"
  "idst (sws_client s i) = idst s"
  "x_screen_count (sws_client s i) = x_screen_count s"
  "ports (sws_client s i) = ports s"
  "tokens_by_port (sws_client s i) = tokens_by_port s"
  "shmem_terminals (sws_client s i) = shmem_terminals s"
  "width (sws_client s i) = width s"
  "height (sws_client s i) = height s"
  "record_type (sws_client s i) = record_type s"
  "id_rec (sws_client s i) = id_rec s"
  "valkkafsmanager (sws_client s i) = valkkafsmanager s"
  "closed (sws_client s i) = closed s"
  "sws_client_count (sws_client s i) = sws_client_count s + i"
  "movement_client_count (sws_client s i) = movement_client_count s + i"
  "decoding_client_count (sws_client s i) = decoding_client_count s + i"
  by (simp_all add: sws_client_def log_defs Let_def)

lemma calls_sws_client:
  "calls (sws_client s i) =
     calls s @ sws_calls (sws_client_count s) i @
     movement_calls (slot (params s)) (movement_client_count s) i @
     decoding_calls (decoding_client_count s) i"
  by (simp add: sws_client_def sws_calls_def calls_movement_client log_defs Let_def)

subsection \<open>Closing twice\<close>

lemma requestClose_closed: "closed s \<Longrightarrow> requestClose s = (s, None)"
  by (simp add: requestClose_def)

lemma construct_p0_close:
  "requestClose (construct p0) = ((invoke requestStopCall (construct p0))\<lparr>closed := True\<rparr>, None)"
  by (simp add: requestClose_def construct_def start_def createContext_def make_decode_branch_def
      make_filesystem_branch_def initVars_def invoke_def p0_def clearRecording_def
      releaseAllShmem_def clearAllViewPorts_def dict_keys_def)

text \<open>
  C8. \<^verbatim>\<open>requestClose\<close> is idempotent: once a call has run to its end the flag
  \<open>closed\<close> is set, and a second call returns the state as it is, with no further
  collaborator call.
\<close>

theorem requestClose_idempotent:
  assumes "requestClose s = (s1, None)"
  shows "closed s1 \<and> requestClose s1 = (s1, None)"
proof -
  from assms have "closed s1"
    by (auto simp: requestClose_def split: if_splits prod.splits option.splits)
  then show ?thesis by (simp add: requestClose_closed)
qed

theorem requestClose_idempotent_witness:
  "requestClose (construct p0) = ((invoke requestStopCall (construct p0))\<lparr>closed := True\<rparr>, None)
   \<and> requestClose ((invoke requestStopCall (construct p0))\<lparr>closed := True\<rparr>)
       = ((invoke requestStopCall (construct p0))\<lparr>closed := True\<rparr>, None)"
  using requestClose_idempotent [OF construct_p0_close] construct_p0_close by simp

subsection \<open>Releasing a shared memory reader\<close>

text \<open>
  C5. \<^verbatim>\<open>releaseShmem\<close> with a name that is not a key of \<^verbatim>\<open>shmem_terminals\<close> returns
  False and leaves the whole state, both logs included, as it was. With a tracked name it
  returns True; the state is that of one \<^verbatim>\<open>sws_client(inc = -1)\<close> run after the name was
  popped and the edge of that name disconnected from \<^verbatim>\<open>sws_fork_filter\<close>; that disconnect is
  the only one on this fork among the new calls; the name is no longer a key and the
  counter is one lower.
\<close>

theorem releaseShmem_unknown_or_known:
  "(name \<notin> set (dict_keys (shmem_terminals s)) \<longrightarrow> releaseShmem s name = (s, False)) \<and>
   (name \<in> set (dict_keys (shmem_terminals s)) \<longrightarrow>
      snd (releaseShmem s name) = True \<and>
      fst (releaseShmem s name) =
        sws_client (invoke (disconnect sws_fork_filter name)
          (py_print [PStr ''releaseShmem : releasing'', PStr name]
            (s\<lparr>shmem_terminals := dict_del name (shmem_terminals s)\<rparr>))) (- 1) \<and>
      filter (is_disconnect_of sws_fork_filter) (new_calls s (fst (releaseShmem s name)))
        = [disconnect sws_fork_filter name] \<and>
      name \<notin> set (dict_keys (shmem_terminals (fst (releaseShmem s name)))) \<and>
      sws_client_count (fst (releaseShmem s name)) = sws_client_count s - 1)"
  by (auto simp add: releaseShmem_def Let_def new_calls_def calls_sws_client log_defs dict_keys_def
      dict_del_def sws_calls_def movement_calls_def decoding_calls_def)

theorem releaseShmem_witness:
  "''nope'' \<notin> set (dict_keys (shmem_terminals (fst (getShmem (construct p0))))) \<and>
   releaseShmem (fst (getShmem (construct p0))) ''nope'' = (fst (getShmem (construct p0)), False) \<and>
   ''7_0'' \<in> set (dict_keys (shmem_terminals (fst (getShmem (construct p0))))) \<and>
   snd (releaseShmem (fst (getShmem (construct p0))) ''7_0'') = True \<and>
   filter (is_disconnect_of sws_fork_filter)
     (new_calls (fst (getShmem (construct p0)))
        (fst (releaseShmem (fst (getShmem (construct p0))) ''7_0'')))
     = [disconnect sws_fork_filter ''7_0''] \<and>
   sws_client_count (fst (releaseShmem (fst (getShmem (construct p0))) ''7_0'')) = 0"
proof -
  let ?s = "fst (getShmem (construct p0))"
  have k: "dict_keys (shmem_terminals ?s) = [''7_0'']"
    by (simp add: getShmem_def Let_def log_defs dict_keys_def construct_def start_def
        createContext_def make_decode_branch_def make_filesystem_branch_def initVars_def p0_def
        str_def str_nat.simps digit_char_def)
  have c: "sws_client_count ?s = 1"
    by (simp add: getShmem_def Let_def log_defs construct_def start_def
        createContext_def make_decode_branch_def make_filesystem_branch_def initVars_def)
  have u: "''nope'' \<notin> set (dict_keys (shmem_terminals ?s))"
    and t: "''7_0'' \<in> set (dict_keys (shmem_terminals ?s))"
    using k by simp_all
  from releaseShmem_unknown_or_known [of "''nope''" ?s] u
  have 1: "releaseShmem ?s ''nope'' = (?s, False)"
    by blast
  from releaseShmem_unknown_or_known [of "''7_0''" ?s] t
  have 2: "snd (releaseShmem ?s ''7_0'') = True \<and>
      filter (is_disconnect_of sws_fork_filter) (new_calls ?s (fst (releaseShmem ?s ''7_0'')))
        = [disconnect sws_fork_filter ''7_0''] \<and>
      sws_client_count (fst (releaseShmem ?s ''7_0'')) = sws_client_count ?s - 1"
    by blast
  from u t 1 2 c show ?thesis
    by simp
qed

subsection \<open>Deleting a view port that is not tracked\<close>

text \<open>
  C7. \<^verbatim>\<open>delViewPort\<close> on a view port that is not in \<^verbatim>\<open>ports\<close> changes nothing but the
  printed output: no attribute, no counter, no collaborator call. The error is not silent:
  either the lookup of the OpenGL thread raises IndexError, or the method prints the line
  \<^verbatim>\<open>delViewPort : FATAL : no such port\<close> with the view port and returns.
\<close>

theorem delViewPort_untracked:
  assumes "vp \<notin> set (ports s)"
  shows "(fst (delViewPort s vp))\<lparr>printed := printed s\<rparr> = s \<and>
         calls (fst (delViewPort s vp)) = calls s \<and>
         (case py_index (openglthreads (params s)) (x_screen_num vp) of
            None \<Rightarrow> delViewPort s vp = (s, Some IndexError)
          | Some gl \<Rightarrow>
              snd (delViewPort s vp) = None \<and>
              printed (fst (delViewPort s vp)) =
                printed s @
                (if verbose (params s) then
                   [[PStr pre, PStr ''delViewPort: view_port, window_id, x_screen_num'',
                     PPort vp, PInt (window_id vp), PInt (x_screen_num vp)]]
                 else []) @
                [[PStr pre, PStr ''delViewPort : FATAL : no such port'', PPort vp]])"
  using assms by (simp add: delViewPort_def Let_def log_defs split: option.splits)

theorem delViewPort_untracked_witness:
  "vp0 \<notin> set (ports (construct p0)) \<and>
   (fst (delViewPort (construct p0) vp0))\<lparr>printed := printed (construct p0)\<rparr> = construct p0 \<and>
   calls (fst (delViewPort (construct p0) vp0)) = calls (construct p0) \<and>
   snd (delViewPort (construct p0) vp0) = None \<and>
   printed (fst (delViewPort (construct p0) vp0)) =
     [[PStr pre, PStr ''delViewPort : FATAL : no such port'', PPort vp0]]"
proof -
  have h: "vp0 \<notin> set (ports (construct p0))"
    by (simp add: construct_def start_def createContext_def make_decode_branch_def
        make_filesystem_branch_def initVars_def invoke_def)
  have i: "py_index (openglthreads (params (construct p0))) (x_screen_num vp0) = Some 0"
    by (simp add: construct_def start_def createContext_def make_decode_branch_def
        make_filesystem_branch_def initVars_def invoke_def p0_def vp0_def py_index_def)
  have v: "\<not> verbose (params (construct p0))" "printed (construct p0) = []"
    by (simp_all add: construct_def start_def createContext_def make_decode_branch_def
        make_filesystem_branch_def initVars_def invoke_def p0_def)
  show ?thesis
    using delViewPort_untracked [OF h] h i v by simp
qed

subsection \<open>Decoding clients\<close>









subsection \<open>View ports and their tokens\<close>

lemma x_screen_client_ports:
  "x_screen_client s i inc = (s', r) \<Longrightarrow>
     ports s' = ports s \<and> tokens_by_port s' = tokens_by_port s \<and> params s' = params s"
  by (auto simp: x_screen_client_def Let_def log_defs split: option.splits if_splits)

lemma delViewPort_tracked:
  assumes "py_index (openglthreads (params s)) (x_screen_num vp) = Some gl"
    and "vp \<in> set (ports s)" and "tokens_by_port s vp = Some tok"
  shows "delViewPort s vp =
     x_screen_client
       (s\<lparr>ports := remove1 vp (ports s),
          tokens_by_port := (tokens_by_port s)(vp := None),
          calls := calls s @ [gl_disconnect gl tok],
          printed := printed s @
            (if verbose (params s) then
               [[PStr pre, PStr ''delViewPort: view_port, window_id, x_screen_num'',
                 PPort vp, PInt (window_id vp), PInt (x_screen_num vp)]]
             else []) @
            [[PStr pre, PStr ''delViewPort: disconnecting token'', PTok tok],
             [PStr pre, PStr ''delViewPort: OK disconnected token'', PTok tok]]\<rparr>)
       (x_screen_num vp) (- 1)"
  using assms by (simp add: delViewPort_def Let_def log_defs)

lemma delViewPort_ports_inv:
  assumes "ports_inv s"
  shows "ports_inv (fst (delViewPort s vp))"
proof (cases "py_index (openglthreads (params s)) (x_screen_num vp)")
  case None
  with assms show ?thesis by (simp add: delViewPort_def)
next
  case (Some gl)
  show ?thesis
  proof (cases "vp \<in> set (ports s)")
    case False
    with assms Some show ?thesis
      by (simp add: delViewPort_def Let_def log_defs ports_inv_def)
  next
    case True
    with assms obtain tok where tok: "tokens_by_port s vp = Some tok"
      by (auto simp: ports_inv_def)
    obtain s' r where x: "delViewPort s vp = (s', r)"
      by (cases "delViewPort s vp")
    from x [unfolded delViewPort_tracked [OF Some True tok]]
    have "ports s' = remove1 vp (ports s) \<and> tokens_by_port s' = (tokens_by_port s)(vp := None)"
      by (auto dest!: x_screen_client_ports)
    with assms x show ?thesis
      by (auto simp: ports_inv_def)
  qed
qed

lemma decoding_client_eq:
  "decoding_client s i =
     s\<lparr>decoding_client_count := decoding_client_count s + i,
       calls := calls s @ decoding_calls (decoding_client_count s) i,
       printed := printed s @ decoding_prints (slot (params s)) (decoding_client_count s) i\<rparr>"
  by (simp add: decoding_client_def decoding_calls_def decoding_prints_def log_defs Let_def)

lemma x_screen_client_eq:
  assumes "x_screen_count s index = Some c"
    and "py_index (openglthreads (params s)) index = Some gl"
  shows "x_screen_client s index i =
     (s\<lparr>x_screen_count := (x_screen_count s)(index \<mapsto> c + i),
        decoding_client_count := decoding_client_count s + i,
        calls := calls s @ x_screen_calls gl index c i @ decoding_calls (decoding_client_count s) i,
        printed := printed s @ decoding_prints (slot (params s)) (decoding_client_count s) i\<rparr>,
      None)"
  using assms
  by (simp add: x_screen_client_def x_screen_calls_def decoding_client_eq log_defs Let_def)

lemma addViewPort_eq:
  assumes "py_index (openglthreads (params s)) (x_screen_num vp) = Some gl"
  shows "addViewPort s vp tok =
     (let s1 = py_print_if (verbose (params s))
                 [PStr pre, PStr ''addViewPort: view_port, window_id, x_screen_num'',
                  PPort vp, PInt (window_id vp), PInt (x_screen_num vp)] s
      in case (if vp \<in> set (ports s) then delViewPort s1 vp else (s1, None)) of
           (s2, Some e) \<Rightarrow> (s2, Some e)
         | (s2, None) \<Rightarrow> attach s2 vp gl tok)"
  using assms
  by (simp add: addViewPort_def attach_def Let_def log_defs split: prod.splits option.splits)


lemma x_screen_client_Some:
  "x_screen_client s i inc = (s', Some e) \<Longrightarrow> s' = s"
  by (auto simp: x_screen_client_def Let_def split: option.splits if_splits)

lemma x_screen_client_frame [simp]:
  "params (fst (x_screen_client s i inc)) = params s"
  "idst (fst (x_screen_client s i inc)) = idst s"
  "movement_client_count (fst (x_screen_client s i inc)) = movement_client_count s"
  "sws_client_count (fst (x_screen_client s i inc)) = sws_client_count s"
  "ports (fst (x_screen_client s i inc)) = ports s"
  "tokens_by_port (fst (x_screen_client s i inc)) = tokens_by_port s"
  "shmem_terminals (fst (x_screen_client s i inc)) = shmem_terminals s"
  "width (fst (x_screen_client s i inc)) = width s"
  "height (fst (x_screen_client s i inc)) = height s"
  "record_type (fst (x_screen_client s i inc)) = record_type s"
  "id_rec (fst (x_screen_client s i inc)) = id_rec s"
  "valkkafsmanager (fst (x_screen_client s i inc)) = valkkafsmanager s"
  "closed (fst (x_screen_client s i inc)) = closed s"
  by (simp_all add: x_screen_client_def Let_def log_defs split: option.splits)


lemma delViewPort_untracks:
  assumes "ports_inv s"
    and "py_index (openglthreads (params s)) (x_screen_num vp) = Some gl"
  shows "vp \<notin> set (ports (fst (delViewPort s vp)))"
proof (cases "vp \<in> set (ports s)")
  case False
  with assms show ?thesis
    by (simp add: delViewPort_def Let_def log_defs)
next
  case True
  with assms obtain tok where tok: "tokens_by_port s vp = Some tok"
    by (auto simp: ports_inv_def)
  obtain s' r where x: "delViewPort s vp = (s', r)"
    by (cases "delViewPort s vp")
  from x [unfolded delViewPort_tracked [OF assms(2) True tok]]
  have "ports s' = remove1 vp (ports s)"
    by (auto dest!: x_screen_client_ports)
  with assms(1) x show ?thesis
    by (auto simp: ports_inv_def)
qed

lemma attach_ports_inv:
  assumes "ports_inv s" and "vp \<notin> set (ports s)"
  shows "ports_inv (fst (attach s vp gl tok))"
proof (cases "x_screen_client s (x_screen_num vp) 1")
  case (Pair s' r)
  note f = x_screen_client_ports [OF Pair]
  show ?thesis
  proof (cases r)
    case None
    with Pair f assms show ?thesis
      by (auto simp: attach_def ports_inv_def)
  next
    case (Some e)
    with Pair f assms show ?thesis
      by (auto simp: attach_def ports_inv_def)
  qed
qed


lemma ports_inv_printed [simp]:
  "ports_inv (py_print_if b vs s) = ports_inv s"
  by (simp add: ports_inv_def log_defs)

lemma addViewPort_ports_inv:
  assumes "ports_inv s"
  shows "ports_inv (fst (addViewPort s vp tok))"
proof (cases "py_index (openglthreads (params s)) (x_screen_num vp)")
  case None
  with assms show ?thesis by (simp add: addViewPort_def)
next
  case (Some gl)
  let ?s1 = "py_print_if (verbose (params s))
                 [PStr pre, PStr ''addViewPort: view_port, window_id, x_screen_num'',
                  PPort vp, PInt (window_id vp), PInt (x_screen_num vp)] s"
  have i1: "ports_inv ?s1"
    using assms by simp
  have p1: "py_index (openglthreads (params ?s1)) (x_screen_num vp) = Some gl"
    using Some by (simp add: log_defs)
  show ?thesis
  proof (cases "vp \<in> set (ports s)")
    case False
    then have "vp \<notin> set (ports ?s1)"
      by (simp add: log_defs)
    from attach_ports_inv [OF i1 this] False show ?thesis
      by (simp add: addViewPort_eq [OF Some] Let_def)
  next
    case True
    obtain s2 r where d: "delViewPort ?s1 vp = (s2, r)"
      by (cases "delViewPort ?s1 vp")
    from delViewPort_ports_inv [OF i1, of vp] d have i2: "ports_inv s2"
      by simp
    from delViewPort_untracks [OF i1 p1] d have n2: "vp \<notin> set (ports s2)"
      by simp
    show ?thesis
    proof (cases r)
      case None
      with attach_ports_inv [OF i2 n2] True d show ?thesis
        by (simp add: addViewPort_eq [OF Some] Let_def)
    next
      case (Some e)
      with i2 True d show ?thesis
        by (simp add: addViewPort_eq [OF \<open>py_index (openglthreads (params s)) (x_screen_num vp) = Some gl\<close>] Let_def)
    qed
  qed
qed

lemma delViewPort_each_ports_inv:
  "ports_inv s \<Longrightarrow> ports_inv (fst (delViewPort_each s vps))"
proof (induction vps arbitrary: s)
  case Nil
  then show ?case by simp
next
  case (Cons vp vps)
  obtain s1 r where d: "delViewPort s vp = (s1, r)"
    by (cases "delViewPort s vp")
  from delViewPort_ports_inv [OF Cons.prems, of vp] d have "ports_inv s1"
    by simp
  with Cons.IH [of s1] d show ?case
    by (cases r) simp_all
qed

lemma clearRecording_frame [simp]:
  "params (clearRecording s) = params s"
  "idst (clearRecording s) = idst s"
  "sws_client_count (clearRecording s) = sws_client_count s"
  "x_screen_count (clearRecording s) = x_screen_count s"
  "ports (clearRecording s) = ports s"
  "tokens_by_port (clearRecording s) = tokens_by_port s"
  "shmem_terminals (clearRecording s) = shmem_terminals s"
  "width (clearRecording s) = width s"
  "height (clearRecording s) = height s"
  "closed (clearRecording s) = closed s"
  by (simp_all add: clearRecording_def Let_def log_defs split: option.splits)

lemma setRecording_frame [simp]:
  "params (setRecording s i t m) = params s"
  "idst (setRecording s i t m) = idst s"
  "sws_client_count (setRecording s i t m) = sws_client_count s"
  "x_screen_count (setRecording s i t m) = x_screen_count s"
  "ports (setRecording s i t m) = ports s"
  "tokens_by_port (setRecording s i t m) = tokens_by_port s"
  "shmem_terminals (setRecording s i t m) = shmem_terminals s"
  "width (setRecording s i t m) = width s"
  "height (setRecording s i t m) = height s"
  "closed (setRecording s i t m) = closed s"
  by (simp_all add: setRecording_def Let_def log_defs)

lemma getShmem_frame [simp]:
  "params (fst (getShmem s)) = params s"
  "idst (fst (getShmem s)) = idst s"
  "x_screen_count (fst (getShmem s)) = x_screen_count s"
  "ports (fst (getShmem s)) = ports s"
  "tokens_by_port (fst (getShmem s)) = tokens_by_port s"
  "width (fst (getShmem s)) = width s"
  "height (fst (getShmem s)) = height s"
  "record_type (fst (getShmem s)) = record_type s"
  "id_rec (fst (getShmem s)) = id_rec s"
  "valkkafsmanager (fst (getShmem s)) = valkkafsmanager s"
  "closed (fst (getShmem s)) = closed s"
  by (simp_all add: getShmem_def Let_def log_defs)

lemma releaseShmem_frame [simp]:
  "params (fst (releaseShmem s n)) = params s"
  "idst (fst (releaseShmem s n)) = idst s"
  "x_screen_count (fst (releaseShmem s n)) = x_screen_count s"
  "ports (fst (releaseShmem s n)) = ports s"
  "tokens_by_port (fst (releaseShmem s n)) = tokens_by_port s"
  "width (fst (releaseShmem s n)) = width s"
  "height (fst (releaseShmem s n)) = height s"
  "record_type (fst (releaseShmem s n)) = record_type s"
  "id_rec (fst (releaseShmem s n)) = id_rec s"
  "valkkafsmanager (fst (releaseShmem s n)) = valkkafsmanager s"
  "closed (fst (releaseShmem s n)) = closed s"
  by (simp_all add: releaseShmem_def Let_def log_defs)

lemma releaseShmem_each_frame [simp]:
  "params (releaseShmem_each s ns) = params s"
  "idst (releaseShmem_each s ns) = idst s"
  "x_screen_count (releaseShmem_each s ns) = x_screen_count s"
  "ports (releaseShmem_each s ns) = ports s"
  "tokens_by_port (releaseShmem_each s ns) = tokens_by_port s"
  "width (releaseShmem_each s ns) = width s"
  "height (releaseShmem_each s ns) = height s"
  "record_type (releaseShmem_each s ns) = record_type s"
  "id_rec (releaseShmem_each s ns) = id_rec s"
  "valkkafsmanager (releaseShmem_each s ns) = valkkafsmanager s"
  "closed (releaseShmem_each s ns) = closed s"
  by (induction ns arbitrary: s; simp)+

lemma movement_cb_frame [simp]:
  "params (movement_cb s tup) = params s"
  "ports (movement_cb s tup) = ports s"
  "tokens_by_port (movement_cb s tup) = tokens_by_port s"
  "record_type (movement_cb s tup) = record_type s"
  "id_rec (movement_cb s tup) = id_rec s"
  "valkkafsmanager (movement_cb s tup) = valkkafsmanager s"
  "movement_client_count (movement_cb s tup) = movement_client_count s"
  "closed (movement_cb s tup) = closed s"
  by (simp_all add: movement_cb_def log_defs)

lemma requestClose_ports_inv:
  assumes "ports_inv s"
  shows "ports_inv (fst (requestClose s))"
proof (cases "closed s")
  case True
  with assms show ?thesis by (simp add: requestClose_closed)
next
  case False
  let ?t = "releaseAllShmem (clearRecording (invoke requestStopCall s))"
  have "ports_inv ?t"
    using assms by (simp add: ports_inv_def releaseAllShmem_def invoke_def)
  from delViewPort_each_ports_inv [OF this, of "ports ?t"]
  have "ports_inv (fst (clearAllViewPorts ?t))"
    by (simp add: clearAllViewPorts_def)
  with False show ?thesis
    by (auto simp: requestClose_def ports_inv_def split: prod.splits option.splits)
qed

lemma step_ports_inv: "ports_inv s \<Longrightarrow> ports_inv (step s e)"
proof (cases e)
  case (AddViewPort vp tok)
  assume "ports_inv s"
  with AddViewPort show ?thesis by (simp add: addViewPort_ports_inv)
next
  case (DelViewPort vp)
  assume "ports_inv s"
  with DelViewPort show ?thesis by (simp add: delViewPort_ports_inv)
next
  case ClearAllViewPorts
  assume "ports_inv s"
  with ClearAllViewPorts show ?thesis
    by (simp add: clearAllViewPorts_def delViewPort_each_ports_inv)
next
  case RequestClose
  assume "ports_inv s"
  with RequestClose show ?thesis by (simp add: requestClose_ports_inv)
qed (simp_all add: ports_inv_def releaseAllShmem_def)

lemma run_ports_inv: "ports_inv s \<Longrightarrow> ports_inv (run s es)"
  by (induction es arbitrary: s) (simp_all add: step_ports_inv)

lemma construct_ports_inv: "ports_inv (construct p)"
  by (simp add: ports_inv_def construct_def start_def createContext_def make_decode_branch_def
      make_filesystem_branch_def initVars_def invoke_def)

text \<open>
  C9. In every state reached from construction by calls of the public methods
  (\<^verbatim>\<open>addViewPort\<close>, \<^verbatim>\<open>delViewPort\<close>, \<^verbatim>\<open>clearAllViewPorts\<close>, \<^verbatim>\<open>requestClose\<close> and the
  shared-memory and recording methods as well), whether they returned or raised, a view
  port is in \<^verbatim>\<open>ports\<close> iff it is a key of \<^verbatim>\<open>tokens_by_port\<close>.
\<close>

theorem ports_iff_tokens:
  "vp \<in> set (ports (run (construct p) es)) \<longleftrightarrow> tokens_by_port (run (construct p) es) vp \<noteq> None"
  using run_ports_inv [OF construct_ports_inv, of p es]
  by (auto simp: ports_inv_def)

subsection \<open>Adding a view port twice\<close>




lemma py_print_if_frame [simp]:
  "params (py_print_if b vs s) = params s"
  "idst (py_print_if b vs s) = idst s"
  "decoding_client_count (py_print_if b vs s) = decoding_client_count s"
  "movement_client_count (py_print_if b vs s) = movement_client_count s"
  "sws_client_count (py_print_if b vs s) = sws_client_count s"
  "x_screen_count (py_print_if b vs s) = x_screen_count s"
  "ports (py_print_if b vs s) = ports s"
  "tokens_by_port (py_print_if b vs s) = tokens_by_port s"
  "shmem_terminals (py_print_if b vs s) = shmem_terminals s"
  "width (py_print_if b vs s) = width s"
  "height (py_print_if b vs s) = height s"
  "record_type (py_print_if b vs s) = record_type s"
  "id_rec (py_print_if b vs s) = id_rec s"
  "valkkafsmanager (py_print_if b vs s) = valkkafsmanager s"
  "closed (py_print_if b vs s) = closed s"
  "calls (py_print_if b vs s) = calls s"
  by (simp_all add: py_print_if_eq)








subsection \<open>Attaching to a closed chain\<close>

lemma movement_client_eq:
  "movement_client s i =
     s\<lparr>decoding_client_count := decoding_client_count s + i,
       movement_client_count := movement_client_count s + i,
       calls := calls s @ movement_calls (slot (params s)) (movement_client_count s) i @
                decoding_calls (decoding_client_count s) i,
       printed := printed s @ movement_prints (slot (params s)) (movement_client_count s) i @
                  decoding_prints (slot (params s)) (decoding_client_count s) i\<rparr>"
  by (simp add: movement_client_def movement_calls_def movement_prints_def decoding_client_eq
      log_defs Let_def)

lemma sws_client_eq:
  "sws_client s i =
     s\<lparr>decoding_client_count := decoding_client_count s + i,
       movement_client_count := movement_client_count s + i,
       sws_client_count := sws_client_count s + i,
       calls := calls s @ sws_calls (sws_client_count s) i @
                movement_calls (slot (params s)) (movement_client_count s) i @
                decoding_calls (decoding_client_count s) i,
       printed := printed s @ sws_prints (slot (params s)) (sws_client_count s) i @
                  movement_prints (slot (params s)) (movement_client_count s) i @
                  decoding_prints (slot (params s)) (decoding_client_count s) i\<rparr>"
  by (simp add: sws_client_def sws_calls_def sws_prints_def movement_client_eq log_defs Let_def)

lemma closed_out:
  "\<And>v. (s\<lparr>closed := b\<rparr>)\<lparr>decoding_client_count := v\<rparr> = (s\<lparr>decoding_client_count := v\<rparr>)\<lparr>closed := b\<rparr>"
  "\<And>v. (s\<lparr>closed := b\<rparr>)\<lparr>movement_client_count := v\<rparr> = (s\<lparr>movement_client_count := v\<rparr>)\<lparr>closed := b\<rparr>"
  "\<And>v. (s\<lparr>closed := b\<rparr>)\<lparr>sws_client_count := v\<rparr> = (s\<lparr>sws_client_count := v\<rparr>)\<lparr>closed := b\<rparr>"
  "\<And>v. (s\<lparr>closed := b\<rparr>)\<lparr>x_screen_count := v\<rparr> = (s\<lparr>x_screen_count := v\<rparr>)\<lparr>closed := b\<rparr>"
  "\<And>v. (s\<lparr>closed := b\<rparr>)\<lparr>ports := v\<rparr> = (s\<lparr>ports := v\<rparr>)\<lparr>closed := b\<rparr>"
  "\<And>v. (s\<lparr>closed := b\<rparr>)\<lparr>tokens_by_port := v\<rparr> = (s\<lparr>tokens_by_port := v\<rparr>)\<lparr>closed := b\<rparr>"
  "\<And>v. (s\<lparr>closed := b\<rparr>)\<lparr>shmem_terminals := v\<rparr> = (s\<lparr>shmem_terminals := v\<rparr>)\<lparr>closed := b\<rparr>"
  "\<And>v. (s\<lparr>closed := b\<rparr>)\<lparr>record_type := v\<rparr> = (s\<lparr>record_type := v\<rparr>)\<lparr>closed := b\<rparr>"
  "\<And>v. (s\<lparr>closed := b\<rparr>)\<lparr>id_rec := v\<rparr> = (s\<lparr>id_rec := v\<rparr>)\<lparr>closed := b\<rparr>"
  "\<And>v. (s\<lparr>closed := b\<rparr>)\<lparr>valkkafsmanager := v\<rparr> = (s\<lparr>valkkafsmanager := v\<rparr>)\<lparr>closed := b\<rparr>"
  "\<And>v. (s\<lparr>closed := b\<rparr>)\<lparr>calls := v\<rparr> = (s\<lparr>calls := v\<rparr>)\<lparr>closed := b\<rparr>"
  "\<And>v. (s\<lparr>closed := b\<rparr>)\<lparr>printed := v\<rparr> = (s\<lparr>printed := v\<rparr>)\<lparr>closed := b\<rparr>"
  by (cases s; simp)+

lemma getShmem_closed:
  "getShmem (s\<lparr>closed := b\<rparr>) = ((fst (getShmem s))\<lparr>closed := b\<rparr>, snd (getShmem s))"
  by (simp add: getShmem_def sws_client_eq log_defs Let_def closed_out)

lemma clearRecording_closed:
  "clearRecording (s\<lparr>closed := b\<rparr>) = (clearRecording s)\<lparr>closed := b\<rparr>"
  by (simp add: clearRecording_def movement_client_eq log_defs Let_def closed_out split: option.splits)

lemma x_screen_client_closed:
  "x_screen_client (s\<lparr>closed := b\<rparr>) i inc =
     ((fst (x_screen_client s i inc))\<lparr>closed := b\<rparr>, snd (x_screen_client s i inc))"
  by (simp add: x_screen_client_def decoding_client_eq log_defs Let_def closed_out split: option.splits)

lemma setRecording_closed:
  "setRecording (s\<lparr>closed := b\<rparr>) i t m = (setRecording s i t m)\<lparr>closed := b\<rparr>"
  by (simp add: setRecording_def clearRecording_closed movement_client_eq log_defs Let_def closed_out)

lemma delViewPort_closed:
  "delViewPort (s\<lparr>closed := b\<rparr>) vp =
     ((fst (delViewPort s vp))\<lparr>closed := b\<rparr>, snd (delViewPort s vp))"
  by (simp add: delViewPort_def x_screen_client_closed log_defs Let_def closed_out
      split: option.splits)

lemma attach_closed:
  "attach (s\<lparr>closed := b\<rparr>) vp gl tok =
     ((fst (attach s vp gl tok))\<lparr>closed := b\<rparr>, snd (attach s vp gl tok))"
  by (cases "x_screen_client s (x_screen_num vp) 1")
     (auto simp: attach_def x_screen_client_closed closed_out split: option.splits)

lemma addViewPort_closed:
  "addViewPort (s\<lparr>closed := b\<rparr>) vp tok =
     ((fst (addViewPort s vp tok))\<lparr>closed := b\<rparr>, snd (addViewPort s vp tok))"
proof (cases "py_index (openglthreads (params s)) (x_screen_num vp)")
  case None
  then show ?thesis by (simp add: addViewPort_def)
next
  case (Some gl)
  then have gl': "py_index (openglthreads (params (s\<lparr>closed := b\<rparr>))) (x_screen_num vp) = Some gl"
    by simp
  let ?s1 = "py_print_if (verbose (params s))
                 [PStr pre, PStr ''addViewPort: view_port, window_id, x_screen_num'',
                  PPort vp, PInt (window_id vp), PInt (x_screen_num vp)] s"
  show ?thesis
  proof (cases "vp \<in> set (ports s)")
    case False
    then show ?thesis
      by (simp add: addViewPort_eq [OF Some] addViewPort_eq [OF gl'] Let_def py_print_if_eq
          closed_out attach_closed)
  next
    case True
    show ?thesis
    proof (cases "delViewPort ?s1 vp")
      case (Pair s2 r)
      with True show ?thesis
        by (cases r)
           (simp_all add: addViewPort_eq [OF Some] addViewPort_eq [OF gl'] Let_def py_print_if_eq
              closed_out attach_closed delViewPort_closed)
    qed
  qed
qed


text \<open>
  C4, as amended. No attach method reads the flag \<open>closed\<close>: on a closed chain
  \<^verbatim>\<open>getShmem\<close>, \<^verbatim>\<open>addViewPort\<close> and \<^verbatim>\<open>setRecording\<close> do exactly what they do on the same
  chain with the flag clear (same attribute updates, same collaborator calls, same
  result), and the flag stays set.
\<close>

theorem attach_ignores_closed:
  "getShmem (s\<lparr>closed := True\<rparr>) = ((fst (getShmem s))\<lparr>closed := True\<rparr>, snd (getShmem s)) \<and>
   addViewPort (s\<lparr>closed := True\<rparr>) vp tok =
     ((fst (addViewPort s vp tok))\<lparr>closed := True\<rparr>, snd (addViewPort s vp tok)) \<and>
   setRecording (s\<lparr>closed := True\<rparr>) i t m = (setRecording s i t m)\<lparr>closed := True\<rparr>"
  by (simp only: getShmem_closed addViewPort_closed setRecording_closed simp_thms)

lemma construct_p0_fields:
  "openglthreads (params (construct p0)) = [0]"
  "verbose (params (construct p0)) = False"
  "slot (params (construct p0)) = 2"
  "shmem_n_buffer (params (construct p0)) = 10"
  "idst (construct p0) = ''7''"
  "decoding_client_count (construct p0) = 0"
  "movement_client_count (construct p0) = 0"
  "sws_client_count (construct p0) = 0"
  "x_screen_count (construct p0) 0 = Some 0"
  "ports (construct p0) = []"
  "shmem_terminals (construct p0) = []"
  "width (construct p0) = 480"
  "height (construct p0) = 270"
  "record_type (construct p0) = None"
  "valkkafsmanager (construct p0) = None"
  "closed (construct p0) = False"
  "printed (construct p0) = []"
  by (simp_all add: construct_def start_def createContext_def make_decode_branch_def
      make_filesystem_branch_def initVars_def invoke_def p0_def str_def str_nat.simps digit_char_def)

lemma calls_construct_p0:
  "calls (construct p0) =
     [connect fork_filter_main (''fs_gate_'' @ str 2) fs_gate_filter, gate_unSet FsGate,
      setAffinity (- 1), connect fork_filter_main (''decoding_'' @ str 2) av_in_filter,
      registerStream, playStream live, startCall]"
  by (simp add: construct_def start_def createContext_def make_decode_branch_def
      make_filesystem_branch_def initVars_def invoke_def p0_def)

text \<open>
  C4 as stated fails: on the chain left by \<^verbatim>\<open>requestClose\<close> each of the three methods
  still makes collaborator calls.
\<close>

theorem attach_after_close_counterexample:
  "closed (fst (requestClose (construct p0))) \<and>
   calls (fst (getShmem (fst (requestClose (construct p0)))))
     \<noteq> calls (fst (requestClose (construct p0))) \<and>
   calls (fst (addViewPort (fst (requestClose (construct p0))) vp0 11))
     \<noteq> calls (fst (requestClose (construct p0))) \<and>
   calls (setRecording (fst (requestClose (construct p0))) 12345 always 3)
     \<noteq> calls (fst (requestClose (construct p0)))"
proof -
  let ?X = "invoke requestStopCall (construct p0)"
  have c: "fst (requestClose (construct p0)) = ?X\<lparr>closed := True\<rparr>"
    by (simp add: construct_p0_close)
  have g: "calls (fst (getShmem ?X)) \<noteq> calls ?X"
    by (simp add: getShmem_def sws_client_eq Let_def log_defs)
  have r: "calls (setRecording ?X 12345 always 3) \<noteq> calls ?X"
    by (simp add: setRecording_def Let_def log_defs construct_p0_fields)
  have "py_index (openglthreads (params ?X)) (x_screen_num vp0) = Some 0"
    by (simp add: invoke_def construct_p0_fields vp0_def py_index_def)
  moreover have "vp0 \<notin> set (ports ?X)"
    by (simp add: invoke_def construct_p0_fields)
  moreover have "x_screen_count (py_print_if False
      [PStr pre, PStr ''addViewPort: view_port, window_id, x_screen_num'',
       PPort vp0, PInt (window_id vp0), PInt (x_screen_num vp0)] ?X) (x_screen_num vp0) = Some 0"
    "verbose (params ?X) = False"
    by (simp_all add: invoke_def construct_p0_fields vp0_def)
  ultimately have a: "calls (fst (addViewPort ?X vp0 11)) \<noteq> calls ?X"
    by (simp add: addViewPort_eq [where gl = 0] Let_def attach_def
        x_screen_client_eq [where c = 0 and gl = 0])
  show ?thesis
    unfolding c
    using g r a
    by (simp add: getShmem_closed addViewPort_closed setRecording_closed)
qed

subsection \<open>Recording mode \<open>never\<close>\<close>

lemma unprinted_fields [simp]:
  "record_type (unprinted s) = record_type s"
  "calls (unprinted s) = calls s"
  "valkkafsmanager (unprinted s) = valkkafsmanager s"
  "id_rec (unprinted s) = id_rec s"
  by (simp_all add: unprinted_def)





subsection \<open>Recording on movement and the gate\<close>

text \<open>
  C2. On the test chain, \<^verbatim>\<open>setRecording\<close> with \<^verbatim>\<open>RecordType.movement\<close>, a movement-start
  callback and \<^verbatim>\<open>clearRecording\<close> leave the filesystem gate open (it was closed after
  construction), although the record type is back to \<^verbatim>\<open>None\<close> and the movement client
  count is back to its old value. With \<^verbatim>\<open>RecordType.always\<close> the same \<^verbatim>\<open>clearRecording\<close>
  closes the gate.
\<close>

theorem clearRecording_leaves_gate_open:
  "gate_open FsGate
     (calls (clearRecording (movement_cb (setRecording (construct p0) 12345 movement 3)
                               (True, 2, 1000)))) \<and>
   \<not> gate_open FsGate (calls (construct p0)) \<and>
   record_type (clearRecording (movement_cb (setRecording (construct p0) 12345 movement 3)
                                  (True, 2, 1000))) = None \<and>
   movement_client_count (clearRecording (movement_cb (setRecording (construct p0) 12345 movement 3)
                                  (True, 2, 1000))) = movement_client_count (construct p0) \<and>
   \<not> gate_open FsGate (calls (clearRecording (setRecording (construct p0) 12345 always 3)))"
  by (simp add: clearRecording_def movement_cb_def setRecording_def movement_client_eq Let_def
      log_defs construct_p0_fields calls_construct_p0 gate_open_def movement_calls_def
      decoding_calls_def)

subsection \<open>Names of shared memory readers\<close>

lemma getShmem_result:
  "snd (getShmem s) = idst s @ ''_'' @ str (int (length (shmem_terminals s)))"
  "shmem_terminals (fst (getShmem s)) =
     dict_set (idst s @ ''_'' @ str (int (length (shmem_terminals s))))
       (RGBShmemFrameFilter (idst s @ ''_'' @ str (int (length (shmem_terminals s))))
          (shmem_n_buffer (params s)) (width s) (height s))
       (shmem_terminals s)"
  "sws_client_count (fst (getShmem s)) = sws_client_count s + 1"
  by (simp_all add: getShmem_def Let_def log_defs)

lemma releaseShmem_result:
  "snd (releaseShmem s n) = (n \<in> set (dict_keys (shmem_terminals s)))"
  "shmem_terminals (fst (releaseShmem s n)) =
     (if n \<in> set (dict_keys (shmem_terminals s)) then dict_del n (shmem_terminals s)
      else shmem_terminals s)"
  "sws_client_count (fst (releaseShmem s n)) =
     (if n \<in> set (dict_keys (shmem_terminals s)) then sws_client_count s - 1
      else sws_client_count s)"
  by (simp_all add: releaseShmem_def Let_def log_defs)

lemma str_small: "str 0 = ''0''" "str 1 = ''1''" "str 2 = ''2''"
  by (simp_all add: str_def str_nat.simps digit_char_def)

text \<open>
  C3. On the test chain the calls \<^verbatim>\<open>getShmem\<close>, \<^verbatim>\<open>getShmem\<close>, \<^verbatim>\<open>releaseShmem\<close> of the
  first name, \<^verbatim>\<open>getShmem\<close> return the names \<^verbatim>\<open>7_0\<close>, \<^verbatim>\<open>7_1\<close> and again \<^verbatim>\<open>7_1\<close>: the third
  name is that of the reader which is still tracked. Afterwards one terminal is tracked
  while the client count is 2.
\<close>

theorem getShmem_name_reused:
  "(let (s1, n1) = getShmem (construct p0);
        (s2, n2) = getShmem s1;
        (s3, r) = releaseShmem s2 n1;
        (s4, n3) = getShmem s3
    in n1 = ''7_0'' \<and> n2 = ''7_1'' \<and> r \<and>
       dict_keys (shmem_terminals s3) = [''7_1''] \<and>
       n3 = ''7_1'' \<and>
       dict_keys (shmem_terminals s4) = [''7_1''] \<and>
       sws_client_count s4 = 2)"
proof -
  let ?s1 = "fst (getShmem (construct p0))"
  let ?s2 = "fst (getShmem ?s1)"
  let ?s3 = "fst (releaseShmem ?s2 ''7_0'')"
  let ?s4 = "fst (getShmem ?s3)"
  let ?F0 = "RGBShmemFrameFilter ''7_0'' 10 480 270"
  let ?F1 = "RGBShmemFrameFilter ''7_1'' 10 480 270"
  have n1: "snd (getShmem (construct p0)) = ''7_0''"
    by (simp add: getShmem_result construct_p0_fields str_small)
  have t1: "shmem_terminals ?s1 = [(''7_0'', ?F0)]"
    by (simp add: getShmem_result construct_p0_fields str_small)
  have n2: "snd (getShmem ?s1) = ''7_1''"
    by (simp add: getShmem_result(1) t1 construct_p0_fields str_small)
  have t2: "shmem_terminals ?s2 = [(''7_0'', ?F0), (''7_1'', ?F1)]"
    by (simp add: getShmem_result(2) t1 construct_p0_fields str_small)
  have r: "snd (releaseShmem ?s2 ''7_0'')"
    by (simp add: releaseShmem_result(1) t2 dict_keys_def)
  have t3: "shmem_terminals ?s3 = [(''7_1'', ?F1)]"
    by (simp add: releaseShmem_result(2) t2 dict_keys_def dict_del_def)
  have n3: "snd (getShmem ?s3) = ''7_1''"
    by (simp add: getShmem_result(1) t3 construct_p0_fields str_small)
  have t4: "shmem_terminals ?s4 = [(''7_1'', ?F1)]"
    by (simp add: getShmem_result(2) t3 construct_p0_fields str_small)
  have c: "sws_client_count ?s4 = 2"
    by (simp add: getShmem_result(3) releaseShmem_result(3) t2 dict_keys_def construct_p0_fields)
  show ?thesis
    unfolding split_def Let_def n1
    using n2 r t3 n3 t4 c by (simp add: dict_keys_def)
qed

end
